theory Spec2Isabelle
  imports Complex_Main "HOL-Library.Sublist"
begin

section \<open>Triangular fuzzy numbers (src/main.py)\<close>

text \<open>
  The class \<open>FuzzyTriangle\<close> of \<^verbatim>\<open>src/main.py\<close> holds five numeric attributes. Its
  two methods that compute are the constructor \<^verbatim>\<open>__init__\<close> and \<^verbatim>\<open>derivative\<close>.
  The class is written for any Python number, so the attribute type is a parameter of
  the record.

  The script calls the class with \<^verbatim>\<open>float\<close> values. The arithmetic is therefore read
  on floats (finite values, two infinities and NaN, with every finite result rounded)
  wherever a result depends on rounding, overflow or NaN: the spreads, \<open>derivative\<close>,
  its iteration and the object store. The guard of the constructor only compares, and
  comparisons of finite floats are exact; for the guard, and for the scenario whose
  values are all exactly representable, the arithmetic is read at type \<open>real\<close>.
\<close>

record 'a FuzzyTriangle =
  left :: 'a
  center :: 'a
  right :: 'a
  left_spread :: 'a
  right_spread :: 'a

text \<open>The exceptions the program can raise or catch: \<^verbatim>\<open>ValueError(msg)\<close> and the
  \<^verbatim>\<open>EOFError\<close> of \<^verbatim>\<open>input()\<close>.\<close>

datatype error = ValueError string | EOFError

definition invalid_triplet_msg :: string where
  "invalid_triplet_msg =
     ''Invalid fuzzy number triplet. Must satisfy: left < center < right.''"

text \<open>
  \<^verbatim>\<open>__init__(self, left, center, right)\<close>, lines 14 to 23: the guard raises, otherwise
  the three bounds and the two spreads are stored.
\<close>

definition init :: "real \<Rightarrow> real \<Rightarrow> real \<Rightarrow> error + real FuzzyTriangle" where
  "init l c r =
     (if l \<ge> c \<or> c \<ge> r then Inl (ValueError invalid_triplet_msg)
      else Inr \<lparr>left = l, center = c, right = r,
                left_spread = c - l, right_spread = r - c\<rparr>)"

text \<open>\<^verbatim>\<open>derivative(self)\<close>, lines 33 to 37.\<close>

definition derivative :: "real FuzzyTriangle \<Rightarrow> error + real FuzzyTriangle" where
  "derivative self =
     (let new_center = 2 * center self;
          new_left_spread = 2 * left_spread self;
          new_right_spread = 2 * right_spread self
      in init (new_center - new_left_spread) new_center (new_center + new_right_spread))"

text \<open>
  \<^verbatim>\<open>__repr__(self)\<close>, line 43. How Python prints a number inside the f-string is
  a parameter.
\<close>

definition repr :: "(real \<Rightarrow> string) \<Rightarrow> real FuzzyTriangle \<Rightarrow> string" where
  "repr repr_float self =
     ''FuzzyTriangle(left='' @ repr_float (left self) @ '', center=''
       @ repr_float (center self) @ '', right='' @ repr_float (right self) @ '')''"

subsection \<open>The script (lines 56 to 125)\<close>

text \<open>
  The script reads three lines, builds the base number and its derivative, prints
  both, draws the figure, and catches \<^verbatim>\<open>ValueError\<close>. What is outside the
  repository is a parameter: \<^verbatim>\<open>float(s)\<close> on a line of text, the printing of a
  number, and the numpy and matplotlib calls of lines 70 to 122 taken as one step
  that either raises or shows the figure.
\<close>

record env =
  to_float :: "string \<Rightarrow> error + real"
  repr_float :: "real \<Rightarrow> string"
  plot_figure :: "real \<Rightarrow> real \<Rightarrow> real FuzzyTriangle \<Rightarrow> error option"

datatype event = Prompt string | Print string | Show_figure

datatype pyval = Float real | Instance "real FuzzyTriangle"

record world =
  stdin :: "string list"
  stdout :: "event list"
  globals :: "string \<rightharpoonup> pyval"

definition py_print :: "string \<Rightarrow> world \<Rightarrow> world" where
  "py_print s w = w\<lparr>stdout := stdout w @ [Print s]\<rparr>"

definition assign :: "string \<Rightarrow> pyval \<Rightarrow> world \<Rightarrow> world" where
  "assign x v w = w\<lparr>globals := (globals w)(x \<mapsto> v)\<rparr>"

text \<open>\<^verbatim>\<open>float(input(prompt))\<close>: the prompt is written, a line is read (\<^verbatim>\<open>EOFError\<close>
  when there is none) and converted.\<close>

definition input_float :: "env \<Rightarrow> string \<Rightarrow> world \<Rightarrow> (error + real) \<times> world" where
  "input_float E prompt w =
     (let w1 = w\<lparr>stdout := stdout w @ [Prompt prompt]\<rparr>
      in case stdin w1 of
           [] \<Rightarrow> (Inl EOFError, w1)
         | line # rest \<Rightarrow> (to_float E line, w1\<lparr>stdin := rest\<rparr>))"

text \<open>The body of the \<^verbatim>\<open>try\<close>, lines 57 to 122. \<open>Some e\<close>: it raised \<open>e\<close>.\<close>

definition try_body :: "env \<Rightarrow> world \<Rightarrow> error option \<times> world" where
  "try_body E w0 =
     (case input_float E ''Enter the left endpoint (a): '' w0 of
        (Inl e, w1) \<Rightarrow> (Some e, w1)
      | (Inr a, w1) \<Rightarrow>
     (case input_float E ''Enter the center value (b): '' (assign ''a'' (Float a) w1) of
        (Inl e, w2) \<Rightarrow> (Some e, w2)
      | (Inr b, w2) \<Rightarrow>
     (case input_float E ''Enter the right endpoint (c): '' (assign ''b'' (Float b) w2) of
        (Inl e, w3) \<Rightarrow> (Some e, w3)
      | (Inr c, w3) \<Rightarrow>
     (case init a b c of
        Inl e \<Rightarrow> (Some e, assign ''c'' (Float c) w3)
      | Inr fuzzy_point \<Rightarrow>
     (let w4 = py_print (''Created fuzzy triangular number: ''
                           @ repr (repr_float E) fuzzy_point)
                 (assign ''fuzzy_point'' (Instance fuzzy_point)
                   (assign ''c'' (Float c) w3))
      in case derivative fuzzy_point of
        Inl e \<Rightarrow> (Some e, w4)
      | Inr fuzzy_derivative \<Rightarrow>
     (let w5 = py_print (''Fuzzy derivative at the fuzzy point: ''
                           @ repr (repr_float E) fuzzy_derivative)
                 (assign ''fuzzy_derivative'' (Instance fuzzy_derivative) w4)
      in case plot_figure E a c fuzzy_point of
        Some e \<Rightarrow> (Some e, w5)
      | None \<Rightarrow> (None, w5\<lparr>stdout := stdout w5 @ [Show_figure]\<rparr>)))))))"

text \<open>
  The whole script: \<^verbatim>\<open>except ValueError as e: print("Error:", e)\<close>. Any other
  exception is not caught and ends the run (\<open>Some e\<close> in the result).
\<close>

definition main :: "env \<Rightarrow> world \<Rightarrow> error option \<times> world" where
  "main E w0 =
     (case try_body E w0 of
        (None, w) \<Rightarrow> (None, w)
      | (Some (ValueError msg), w) \<Rightarrow> (None, py_print (''Error: '' @ msg) w)
      | (Some EOFError, w) \<Rightarrow> (Some EOFError, w))"

definition initial_world :: "string list \<Rightarrow> world" where
  "initial_world lines = \<lparr>stdin = lines, stdout = [], globals = Map.empty\<rparr>"

definition is_Print :: "event \<Rightarrow> bool" where
  "is_Print ev = (case ev of Print _ \<Rightarrow> True | _ \<Rightarrow> False)"

subsection \<open>The class on Python floats\<close>

text \<open>
  The script passes \<^verbatim>\<open>float\<close> values, and \<^verbatim>\<open>float("nan")\<close> and \<^verbatim>\<open>float("inf")\<close>
  parse. A float is a finite number, an infinity or NaN. Comparisons are exact; a
  comparison with NaN is false. The rounding of a finite result is the parameter
  \<open>rnd\<close>; \<open>binary64\<close> below is the rounding of the machine. The two zeros compare
  equal and are one value here.
\<close>

datatype pyfloat = Finite real | PosInf | NegInf | NaN

fun float_ge :: "pyfloat \<Rightarrow> pyfloat \<Rightarrow> bool" where
  "float_ge NaN y = False"
| "float_ge x NaN = False"
| "float_ge PosInf y = True"
| "float_ge x NegInf = True"
| "float_ge (Finite x) (Finite y) = (x \<ge> y)"
| "float_ge (Finite x) PosInf = False"
| "float_ge NegInf y = False"

fun float_lt :: "pyfloat \<Rightarrow> pyfloat \<Rightarrow> bool" where
  "float_lt NaN y = False"
| "float_lt x NaN = False"
| "float_lt x NegInf = False"
| "float_lt PosInf y = False"
| "float_lt (Finite x) (Finite y) = (x < y)"
| "float_lt (Finite x) PosInf = True"
| "float_lt NegInf y = True"

fun float_sub :: "(real \<Rightarrow> pyfloat) \<Rightarrow> pyfloat \<Rightarrow> pyfloat \<Rightarrow> pyfloat" where
  "float_sub rnd NaN y = NaN"
| "float_sub rnd x NaN = NaN"
| "float_sub rnd (Finite x) (Finite y) = rnd (x - y)"
| "float_sub rnd PosInf PosInf = NaN"
| "float_sub rnd NegInf NegInf = NaN"
| "float_sub rnd PosInf y = PosInf"
| "float_sub rnd NegInf y = NegInf"
| "float_sub rnd (Finite x) PosInf = NegInf"
| "float_sub rnd (Finite x) NegInf = PosInf"

text \<open>\<^verbatim>\<open>x + y\<close> and \<^verbatim>\<open>2 * x\<close> on floats.\<close>

fun float_add :: "(real \<Rightarrow> pyfloat) \<Rightarrow> pyfloat \<Rightarrow> pyfloat \<Rightarrow> pyfloat" where
  "float_add rnd NaN y = NaN"
| "float_add rnd x NaN = NaN"
| "float_add rnd (Finite x) (Finite y) = rnd (x + y)"
| "float_add rnd PosInf NegInf = NaN"
| "float_add rnd NegInf PosInf = NaN"
| "float_add rnd PosInf y = PosInf"
| "float_add rnd NegInf y = NegInf"
| "float_add rnd (Finite x) PosInf = PosInf"
| "float_add rnd (Finite x) NegInf = NegInf"

fun float_twice :: "(real \<Rightarrow> pyfloat) \<Rightarrow> pyfloat \<Rightarrow> pyfloat" where
  "float_twice rnd NaN = NaN"
| "float_twice rnd PosInf = PosInf"
| "float_twice rnd NegInf = NegInf"
| "float_twice rnd (Finite x) = rnd (2 * x)"

text \<open>\<^verbatim>\<open>__init__\<close>, lines 14 to 23, on floats.\<close>

definition init_float ::
  "(real \<Rightarrow> pyfloat) \<Rightarrow> pyfloat \<Rightarrow> pyfloat \<Rightarrow> pyfloat \<Rightarrow> error + pyfloat FuzzyTriangle" where
  "init_float rnd l c r =
     (if float_ge l c \<or> float_ge c r then Inl (ValueError invalid_triplet_msg)
      else Inr \<lparr>left = l, center = c, right = r,
                left_spread = float_sub rnd c l, right_spread = float_sub rnd r c\<rparr>)"

text \<open>\<^verbatim>\<open>derivative(self)\<close>, lines 33 to 37, on floats.\<close>

definition derivative_float ::
  "(real \<Rightarrow> pyfloat) \<Rightarrow> pyfloat FuzzyTriangle \<Rightarrow> error + pyfloat FuzzyTriangle" where
  "derivative_float rnd self =
     (let new_center = float_twice rnd (center self);
          new_left_spread = float_twice rnd (left_spread self);
          new_right_spread = float_twice rnd (right_spread self)
      in init_float rnd (float_sub rnd new_center new_left_spread) new_center
           (float_add rnd new_center new_right_spread))"

text \<open>
  \<open>n\<close> successive calls \<^verbatim>\<open>t.derivative().derivative()...\<close>; a raise ends the chain.
\<close>

primrec derivative_iter ::
  "(real \<Rightarrow> pyfloat) \<Rightarrow> nat \<Rightarrow> pyfloat FuzzyTriangle \<Rightarrow> error + pyfloat FuzzyTriangle" where
  "derivative_iter rnd 0 self = Inr self"
| "derivative_iter rnd (Suc n) self =
     (case derivative_float rnd self of
        Inl e \<Rightarrow> Inl e
      | Inr d \<Rightarrow> derivative_iter rnd n d)"

subsection \<open>Instances as objects in a store\<close>

text \<open>
  Python instances are objects with identity. The store lists the instances in order
  of creation; a reference is an index. The only attribute assignments of the class
  are those of \<^verbatim>\<open>__init__\<close>, on the object under construction, so a successful
  constructor call adds one object and a raising one adds none (the half-made object
  is unreachable).
\<close>

type_synonym ref = nat
type_synonym store = "pyfloat FuzzyTriangle list"

text \<open>The call \<^verbatim>\<open>FuzzyTriangle(l, c, r)\<close>.\<close>

definition new_FuzzyTriangle ::
  "(real \<Rightarrow> pyfloat) \<Rightarrow> store \<Rightarrow> pyfloat \<Rightarrow> pyfloat \<Rightarrow> pyfloat \<Rightarrow> (error + ref) \<times> store" where
  "new_FuzzyTriangle rnd h l c r =
     (case init_float rnd l c r of
        Inl e \<Rightarrow> (Inl e, h)
      | Inr obj \<Rightarrow> (Inr (length h), h @ [obj]))"

text \<open>The call \<^verbatim>\<open>self.derivative()\<close> on the object at \<open>self\<close>: the attributes are
  read from the store and the constructor is called.\<close>

definition derivative_at ::
  "(real \<Rightarrow> pyfloat) \<Rightarrow> store \<Rightarrow> ref \<Rightarrow> (error + ref) \<times> store" where
  "derivative_at rnd h self =
     (let new_center = float_twice rnd (center (h ! self));
          new_left_spread = float_twice rnd (left_spread (h ! self));
          new_right_spread = float_twice rnd (right_spread (h ! self))
      in new_FuzzyTriangle rnd h (float_sub rnd new_center new_left_spread) new_center
           (float_add rnd new_center new_right_spread))"


subsection \<open>Rounding to binary64\<close>

text \<open>
  Python's \<^verbatim>\<open>float\<close> is the IEEE 754 binary64 format with rounding to nearest, ties
  to even. A nonzero real \<open>x\<close> with \<open>2 ^ e \<le> \<bar>x\<bar> < 2 ^ (e + 1)\<close> is rounded to a multiple
  of \<open>2 ^ (e - 52)\<close>, or of \<open>2 ^ (- 1074)\<close> in the subnormal range; a result of
  magnitude \<open>2 ^ 1024\<close> or more is an infinity.
\<close>

definition round_half_even :: "real \<Rightarrow> int" where
  "round_half_even x =
     (let f = \<lfloor>x\<rfloor>; d = x - of_int f
      in if d < 1 / 2 then f else if d > 1 / 2 then f + 1
         else if even f then f else f + 1)"

definition binary64 :: "real \<Rightarrow> pyfloat" where
  "binary64 x =
     (if x = 0 then Finite 0
      else let e = \<lfloor>log 2 \<bar>x\<bar>\<rfloor>;
               q = max (e - 52) (- 1074);
               y = of_int (round_half_even (x / 2 powr of_int q)) * 2 powr of_int q
           in if \<bar>y\<bar> \<ge> 2 ^ 1024 then (if x > 0 then PosInf else NegInf)
              else Finite y)"

text \<open>An environment for the examples: it parses the lines \<^verbatim>\<open>2\<close> and \<^verbatim>\<open>3\<close>.\<close>

definition example_env :: env where
  "example_env =
     \<lparr>to_float = (\<lambda>s. if s = ''2'' then Inr 2 else if s = ''3'' then Inr 3
                       else Inl (ValueError ''could not convert string to float'')),
      repr_float = (\<lambda>x. ''?''),
      plot_figure = (\<lambda>a c p. None)\<rparr>"

section \<open>Auxiliary facts\<close>

lemma init_Inr_iff:
  "init l c r = Inr t \<longleftrightarrow>
     l < c \<and> c < r \<and>
     t = \<lparr>left = l, center = c, right = r, left_spread = c - l, right_spread = r - c\<rparr>"
  by (auto simp: init_def)

lemma init_Inl_iff:
  "init l c r = Inl e \<longleftrightarrow> \<not> (l < c \<and> c < r) \<and> e = ValueError invalid_triplet_msg"
  by (auto simp: init_def)

lemma try_body_invalid:
  assumes "to_float E s1 = Inr a" and "to_float E s2 = Inr b" and "to_float E s3 = Inr c"
    and "\<not> (a < b \<and> b < c)"
  shows "try_body E (initial_world (s1 # s2 # s3 # rest)) =
     (Some (ValueError invalid_triplet_msg),
      \<lparr>stdin = rest,
       stdout = [Prompt ''Enter the left endpoint (a): '',
                 Prompt ''Enter the center value (b): '',
                 Prompt ''Enter the right endpoint (c): ''],
       globals = [''a'' \<mapsto> Float a, ''b'' \<mapsto> Float b, ''c'' \<mapsto> Float c]\<rparr>)"
proof -
  have i: "init a b c = Inl (ValueError invalid_triplet_msg)"
    using assms(4) by (simp add: init_Inl_iff)
  show ?thesis
    by (simp add: try_body_def input_float_def initial_world_def assign_def Let_def assms(1-3) i)
qed

lemma init_float_Inr_iff:
  "init_float rnd l c r = Inr t \<longleftrightarrow>
     \<not> float_ge l c \<and> \<not> float_ge c r \<and>
     t = \<lparr>left = l, center = c, right = r,
          left_spread = float_sub rnd c l, right_spread = float_sub rnd r c\<rparr>"
  by (auto simp: init_float_def)

lemma float_ge_NaN_right [simp]: "float_ge x NaN = False"
  by (cases x) simp_all

lemma float_lt_NaN_right [simp]: "float_lt x NaN = False"
  by (cases x) simp_all

text \<open>On finite arguments the two readings of the guard agree.\<close>

lemma init_float_raises_iff_init:
  "(\<exists>e. init_float rnd (Finite l) (Finite c) (Finite r) = Inl e) \<longleftrightarrow> (\<exists>e. init l c r = Inl e)"
  by (auto simp: init_float_def init_def)

text \<open>Facts about the rounding.\<close>

lemma round_half_even_of_int: "round_half_even (of_int n) = n"
  by (simp add: round_half_even_def)

lemma round_half_even_ge_floor: "\<lfloor>x\<rfloor> \<le> round_half_even x"
  by (simp add: round_half_even_def Let_def)

lemma binary64_exact:
  fixes m :: int and k :: nat
  assumes x: "x = of_int m * 2 ^ k" and m: "\<bar>m\<bar> < 2 ^ 53" and b: "\<bar>x\<bar> < 2 ^ 1024"
  shows "binary64 x = Finite x"
proof (cases "x = 0")
  case True
  then show ?thesis by (simp add: binary64_def)
next
  case False
  then have m0: "m \<noteq> 0" using x by auto
  define e where "e = \<lfloor>log 2 \<bar>x\<bar>\<rfloor>"
  define q where "q = max (e - 52) (- 1074)"
  have xpos: "0 < \<bar>x\<bar>" using False by simp
  have "\<bar>x\<bar> = of_int \<bar>m\<bar> * 2 ^ k" using x by (simp add: abs_mult)
  also have "\<dots> < 2 ^ 53 * 2 ^ k"
  proof -
    have "(of_int \<bar>m\<bar> :: real) < of_int (2 ^ 53)" using m by (simp only: of_int_less_iff)
    then have "(of_int \<bar>m\<bar> :: real) < 2 ^ 53" by simp
    then show ?thesis by (simp add: mult_strict_right_mono)
  qed
  finally have "\<bar>x\<bar> < 2 ^ (53 + k)" by (simp only: power_add)
  moreover have "(2::real) powr (of_int (int (53 + k))) = 2 ^ (53 + k)"
    using powr_realpow[of "2::real" "53 + k"] by simp
  ultimately have ub: "\<bar>x\<bar> < 2 powr (of_int (int (53 + k)))" by simp
  have "log 2 \<bar>x\<bar> < of_int (int (53 + k))"
    using ub xpos by (simp add: log_less_iff)
  then have "e < int (53 + k)" unfolding e_def by (simp add: floor_less_iff)
  then have qk: "q \<le> int k" unfolding q_def by simp
  define j where "j = nat (int k - q)"
  have jk: "int j = int k - q" using qk by (simp add: j_def)
  have pq: "2 powr of_int q * 2 ^ j = (2::real) ^ k"
  proof -
    have "(2::real) ^ j = 2 powr of_int (int j)" by (simp add: powr_realpow)
    also have "\<dots> = 2 powr (of_int (int k) - of_int q)" using jk by simp
    finally have "2 powr of_int q * (2::real) ^ j = 2 powr (of_int q + (of_int (int k) - of_int q))"
      by (simp only: powr_add)
    also have "\<dots> = 2 powr (of_int (int k))" by simp
    also have "\<dots> = 2 ^ k" by (simp add: powr_realpow)
    finally show ?thesis .
  qed
  have pos: "(2::real) powr of_int q > 0" by simp
  have div: "x / 2 powr of_int q = of_int (m * 2 ^ j)"
  proof -
    have "x = of_int m * (2 powr of_int q * 2 ^ j)" using x pq by simp
    then have "x / 2 powr of_int q = of_int m * 2 ^ j" using pos by simp
    then show ?thesis by simp
  qed
  have y: "of_int (round_half_even (x / 2 powr of_int q)) * 2 powr of_int q = x"
  proof -
    have "of_int (round_half_even (x / 2 powr of_int q)) * 2 powr of_int q
          = of_int (m * 2 ^ j) * (2::real) powr of_int q"
      by (simp only: div round_half_even_of_int)
    also have "\<dots> = of_int m * ((2::real) powr of_int q * 2 ^ j)" by simp
    also have "\<dots> = x" using x pq by simp
    finally show ?thesis .
  qed
  show ?thesis
    using False b y unfolding binary64_def Let_def e_def[symmetric] q_def[symmetric]
    by simp
qed

lemma binary64_overflow:
  assumes "x \<ge> 2 ^ 1024"
  shows "binary64 x = PosInf"
proof -
  have xpos: "0 < x" using assms by (smt (verit) zero_less_power)
  define e where "e = \<lfloor>log 2 \<bar>x\<bar>\<rfloor>"
  define q where "q = max (e - 52) (- 1074)"
  define r where "r = round_half_even (x / 2 powr of_int q)"
  have p1024: "(2::real) powr 1024 = 2 ^ 1024" by simp
  have "(1024::real) \<le> log 2 x"
    using assms xpos p1024 by (simp add: le_log_iff del: powr_numeral)
  then have e1024: "1024 \<le> e" unfolding e_def using xpos by (simp add: le_floor_iff)
  then have q: "q = e - 52" unfolding q_def by simp
  have "of_int e \<le> log 2 x" unfolding e_def using xpos by simp
  then have ex: "2 powr of_int e \<le> x" using xpos by (simp add: le_log_iff)
  have pe: "(2::real) powr of_int e = 2 ^ 52 * 2 powr of_int q"
  proof -
    have "of_int e = (52::real) + of_int q" using q by simp
    then have "(2::real) powr of_int e = 2 powr 52 * 2 powr of_int q"
      by (simp only: powr_add)
    then show ?thesis by simp
  qed
  have pos: "(2::real) powr of_int q > 0" by simp
  have "(2::real) ^ 52 \<le> x / 2 powr of_int q"
    using ex pe pos by (simp add: pos_le_divide_eq)
  then have "of_int (2 ^ 52) \<le> x / 2 powr of_int q" by simp
  then have "(2::int) ^ 52 \<le> \<lfloor>x / 2 powr of_int q\<rfloor>" by (simp only: le_floor_iff)
  then have "(2::int) ^ 52 \<le> r"
    unfolding r_def using round_half_even_ge_floor[of "x / 2 powr of_int q"] by linarith
  then have "(of_int (2 ^ 52) :: real) \<le> of_int r" by (simp only: of_int_le_iff)
  then have r52: "(2::real) ^ 52 \<le> of_int r" by simp
  have "(2::real) ^ 52 * 2 powr of_int q \<le> of_int r * 2 powr of_int q"
    using r52 pos by (intro mult_right_mono) simp_all
  then have "(2::real) powr of_int e \<le> of_int r * 2 powr of_int q"
    by (simp only: pe)
  moreover have "(2::real) powr of_int (1024::int) \<le> 2 powr of_int e"
    by (rule powr_mono) (use e1024 in simp_all)
  moreover have "(2::real) powr of_int (1024::int) = 2 ^ 1024" by simp
  ultimately have y: "(2::real) ^ 1024 \<le> of_int r * 2 powr of_int q"
    by linarith
  then have "(2::real) ^ 1024 \<le> \<bar>of_int r * 2 powr of_int q\<bar>" by linarith
  then show ?thesis
    using xpos unfolding binary64_def Let_def e_def[symmetric] q_def[symmetric] r_def[symmetric]
    by simp
qed

lemma binary64_tie_2_53:
  "binary64 9007199254740993 = Finite 9007199254740992"
proof -
  have e: "\<lfloor>log 2 \<bar>9007199254740993::real\<bar>\<rfloor> = 53"
    by (simp add: floor_log_eq_powr_iff)
  have r: "round_half_even (9007199254740993 / 2) = 4503599627370496"
    by (simp add: round_half_even_def Let_def)
  show ?thesis
    unfolding binary64_def Let_def e by (simp add: r)
qed

lemma binary64_small:
  "binary64 1 = Finite 1" "binary64 2 = Finite 2" "binary64 3 = Finite 3"
  "binary64 4 = Finite 4" "binary64 5 = Finite 5" "binary64 6 = Finite 6"
  "binary64 8 = Finite 8" "binary64 10 = Finite 10" "binary64 12 = Finite 12"
  "binary64 20 = Finite 20"
proof -
  have "binary64 (of_int m) = Finite (of_int m)" if "\<bar>m\<bar> < 100" for m :: int
  proof (rule binary64_exact[of _ m 0])
    show "(of_int m :: real) = of_int m * 2 ^ 0" by simp
    show "\<bar>m\<bar> < 2 ^ 53" using that by simp
    have "\<bar>of_int m :: real\<bar> < 100" using that by linarith
    moreover have "(100::real) < 2 ^ 1024" by simp
    ultimately show "\<bar>of_int m :: real\<bar> < 2 ^ 1024" by linarith
  qed
  from this[of 1] this[of 2] this[of 3] this[of 4] this[of 5] this[of 6] this[of 8]
    this[of 10] this[of 12] this[of 20]
  show "binary64 1 = Finite 1" "binary64 2 = Finite 2" "binary64 3 = Finite 3"
  "binary64 4 = Finite 4" "binary64 5 = Finite 5" "binary64 6 = Finite 6"
  "binary64 8 = Finite 8" "binary64 10 = Finite 10" "binary64 12 = Finite 12"
  "binary64 20 = Finite 20"
    by simp_all
qed

lemma binary64_2_54: "binary64 18014398509481984 = Finite 18014398509481984"
  by (rule binary64_exact[of _ 1 54]) simp_all

lemma binary64_2_54_4: "binary64 18014398509481988 = Finite 18014398509481988"
  by (rule binary64_exact[of _ 4503599627370497 2]) simp_all

lemma binary64_2_54_8: "binary64 18014398509481992 = Finite 18014398509481992"
  by (rule binary64_exact[of _ 2251799813685249 3]) simp_all

lemma binary64_2_55: "binary64 36028797018963968 = Finite 36028797018963968"
  by (rule binary64_exact[of _ 1 55]) simp_all

lemma binary64_2_55_8: "binary64 36028797018963976 = Finite 36028797018963976"
  by (rule binary64_exact[of _ 4503599627370497 3]) simp_all

lemma binary64_2_55_16: "binary64 36028797018963984 = Finite 36028797018963984"
  by (rule binary64_exact[of _ 2251799813685249 4]) simp_all

lemma binary64_2_1021: "binary64 (2 ^ 1021) = Finite (2 ^ 1021)"
  by (rule binary64_exact[of _ 1 1021]) simp_all

lemma binary64_2_1022: "binary64 (2 ^ 1022) = Finite (2 ^ 1022)"
  by (rule binary64_exact[of _ 1 1022]) simp_all

lemma binary64_5_2_1022: "binary64 (5 * 2 ^ 1022) = PosInf"
  by (rule binary64_overflow) simp

text \<open>Runs without rounding error.\<close>

lemma init_float_finite:
  assumes "a < b" and "b < c"
  shows "init_float rnd (Finite a) (Finite b) (Finite c)
         = Inr \<lparr>left = Finite a, center = Finite b, right = Finite c,
                left_spread = rnd (b - a), right_spread = rnd (c - b)\<rparr>"
  using assms by (simp add: init_float_def)

lemma derivative_float_exact:
  assumes "a < b" and "b < c"
    and "rnd (2 * a) = Finite (2 * a)" and "rnd (2 * b) = Finite (2 * b)"
    and "rnd (2 * c) = Finite (2 * c)"
    and "rnd (2 * (b - a)) = Finite (2 * (b - a))"
    and "rnd (2 * (c - b)) = Finite (2 * (c - b))"
  shows "derivative_float rnd \<lparr>left = Finite a, center = Finite b, right = Finite c,
                               left_spread = Finite (b - a), right_spread = Finite (c - b)\<rparr>
         = Inr \<lparr>left = Finite (2 * a), center = Finite (2 * b), right = Finite (2 * c),
                left_spread = Finite (2 * (b - a)), right_spread = Finite (2 * (c - b))\<rparr>"
proof -
  have l: "2 * b - 2 * (b - a) = 2 * a" and r: "2 * b + 2 * (c - b) = 2 * c"
    and sl: "2 * b - 2 * a = 2 * (b - a)" and sr: "2 * c - 2 * b = 2 * (c - b)"
    by simp_all
  have o: "2 * a < 2 * b" "2 * b < 2 * c" using assms(1,2) by simp_all
  have nl: "float_sub rnd (Finite (2 * b)) (Finite (2 * (b - a))) = Finite (2 * a)"
    by (simp only: float_sub.simps l assms(3))
  have nr: "float_add rnd (Finite (2 * b)) (Finite (2 * (c - b))) = Finite (2 * c)"
    by (simp only: float_add.simps r assms(5))
  have "derivative_float rnd \<lparr>left = Finite a, center = Finite b, right = Finite c,
                               left_spread = Finite (b - a), right_spread = Finite (c - b)\<rparr>
        = init_float rnd (Finite (2 * a)) (Finite (2 * b)) (Finite (2 * c))"
    unfolding derivative_float_def Let_def
    by (simp only: FuzzyTriangle.simps float_twice.simps assms(4,6,7) nl nr)
  also have "\<dots> = Inr \<lparr>left = Finite (2 * a), center = Finite (2 * b), right = Finite (2 * c),
                left_spread = rnd (2 * b - 2 * a), right_spread = rnd (2 * c - 2 * b)\<rparr>"
    by (rule init_float_finite[OF o])
  also have "\<dots> = Inr \<lparr>left = Finite (2 * a), center = Finite (2 * b), right = Finite (2 * c),
                left_spread = Finite (2 * (b - a)), right_spread = Finite (2 * (c - b))\<rparr>"
    by (simp only: sl sr assms(6,7))
  finally show ?thesis .
qed

lemma derivative_iter_exact:
  assumes "a < b" and "b < c"
    and "\<And>k. 1 \<le> k \<Longrightarrow> k \<le> n \<Longrightarrow> rnd (2 ^ k * a) = Finite (2 ^ k * a)"
    and "\<And>k. 1 \<le> k \<Longrightarrow> k \<le> n \<Longrightarrow> rnd (2 ^ k * b) = Finite (2 ^ k * b)"
    and "\<And>k. 1 \<le> k \<Longrightarrow> k \<le> n \<Longrightarrow> rnd (2 ^ k * c) = Finite (2 ^ k * c)"
    and "\<And>k. 1 \<le> k \<Longrightarrow> k \<le> n \<Longrightarrow> rnd (2 ^ k * (b - a)) = Finite (2 ^ k * (b - a))"
    and "\<And>k. 1 \<le> k \<Longrightarrow> k \<le> n \<Longrightarrow> rnd (2 ^ k * (c - b)) = Finite (2 ^ k * (c - b))"
  shows "derivative_iter rnd n
           \<lparr>left = Finite a, center = Finite b, right = Finite c,
            left_spread = Finite (b - a), right_spread = Finite (c - b)\<rparr>
         = Inr \<lparr>left = Finite (2 ^ n * a), center = Finite (2 ^ n * b),
                right = Finite (2 ^ n * c), left_spread = Finite (2 ^ n * (b - a)),
                right_spread = Finite (2 ^ n * (c - b))\<rparr>"
  using assms
proof (induction n arbitrary: a b c)
  case 0
  then show ?case by simp
next
  case (Suc n)
  have one: "rnd (2 * x) = Finite (2 * x)"
    if "\<And>k. 1 \<le> k \<Longrightarrow> k \<le> Suc n \<Longrightarrow> rnd (2 ^ k * x) = Finite (2 ^ k * x)" for x
    using that[of 1] by simp
  have step: "derivative_float rnd \<lparr>left = Finite a, center = Finite b, right = Finite c,
                               left_spread = Finite (b - a), right_spread = Finite (c - b)\<rparr>
         = Inr \<lparr>left = Finite (2 * a), center = Finite (2 * b), right = Finite (2 * c),
                left_spread = Finite (2 * b - 2 * a), right_spread = Finite (2 * c - 2 * b)\<rparr>"
    using derivative_float_exact[OF Suc.prems(1,2) one[OF Suc.prems(3)] one[OF Suc.prems(4)]
        one[OF Suc.prems(5)] one[OF Suc.prems(6)] one[OF Suc.prems(7)]]
    by (simp add: algebra_simps)
  have shift: "rnd (2 ^ k * (2 * x)) = Finite (2 ^ k * (2 * x))"
    if "\<And>k. 1 \<le> k \<Longrightarrow> k \<le> Suc n \<Longrightarrow> rnd (2 ^ k * x) = Finite (2 ^ k * x)"
      and "1 \<le> k" and "k \<le> n" for x k
    using that(1)[of "Suc k"] that(2,3) by (simp add: mult.assoc mult.left_commute)
  have o: "2 * a < 2 * b" "2 * b < 2 * c" using Suc.prems(1,2) by simp_all
  have ih: "derivative_iter rnd n
           \<lparr>left = Finite (2 * a), center = Finite (2 * b), right = Finite (2 * c),
            left_spread = Finite (2 * b - 2 * a), right_spread = Finite (2 * c - 2 * b)\<rparr>
         = Inr \<lparr>left = Finite (2 ^ n * (2 * a)), center = Finite (2 ^ n * (2 * b)),
                right = Finite (2 ^ n * (2 * c)),
                left_spread = Finite (2 ^ n * (2 * b - 2 * a)),
                right_spread = Finite (2 ^ n * (2 * c - 2 * b))\<rparr>"
  proof (rule Suc.IH[OF o])
    fix k :: nat assume k: "1 \<le> k" "k \<le> n"
    show "rnd (2 ^ k * (2 * a)) = Finite (2 ^ k * (2 * a))"
      by (rule shift[OF Suc.prems(3) k])
    show "rnd (2 ^ k * (2 * b)) = Finite (2 ^ k * (2 * b))"
      by (rule shift[OF Suc.prems(4) k])
    show "rnd (2 ^ k * (2 * c)) = Finite (2 ^ k * (2 * c))"
      by (rule shift[OF Suc.prems(5) k])
    have "rnd (2 ^ k * (2 * (b - a))) = Finite (2 ^ k * (2 * (b - a)))"
      by (rule shift[OF Suc.prems(6) k])
    then show "rnd (2 ^ k * (2 * b - 2 * a)) = Finite (2 ^ k * (2 * b - 2 * a))"
      by (simp add: algebra_simps)
    have "rnd (2 ^ k * (2 * (c - b))) = Finite (2 ^ k * (2 * (c - b)))"
      by (rule shift[OF Suc.prems(7) k])
    then show "rnd (2 ^ k * (2 * c - 2 * b)) = Finite (2 ^ k * (2 * c - 2 * b))"
      by (simp add: algebra_simps)
  qed
  have "derivative_iter rnd (Suc n)
           \<lparr>left = Finite a, center = Finite b, right = Finite c,
            left_spread = Finite (b - a), right_spread = Finite (c - b)\<rparr>
        = Inr \<lparr>left = Finite (2 ^ n * (2 * a)), center = Finite (2 ^ n * (2 * b)),
                right = Finite (2 ^ n * (2 * c)),
                left_spread = Finite (2 ^ n * (2 * b - 2 * a)),
                right_spread = Finite (2 ^ n * (2 * c - 2 * b))\<rparr>"
    by (simp only: derivative_iter.simps step sum.case ih)
  also have "\<dots> = Inr \<lparr>left = Finite (2 ^ Suc n * a), center = Finite (2 ^ Suc n * b),
                right = Finite (2 ^ Suc n * c), left_spread = Finite (2 ^ Suc n * (b - a)),
                right_spread = Finite (2 ^ Suc n * (c - b))\<rparr>"
    by (simp add: algebra_simps)
  finally show ?case .
qed



lemma derivative_at_eq:
  "derivative_at rnd h self =
     (case derivative_float rnd (h ! self) of Inl e \<Rightarrow> (Inl e, h)
      | Inr obj \<Rightarrow> (Inr (length h), h @ [obj]))"
  by (simp add: derivative_at_def derivative_float_def new_FuzzyTriangle_def Let_def)

lemma derivative_at_cases:
  assumes "derivative_at rnd h self = (res, h')"
  shows "(\<exists>e. res = Inl e \<and> h' = h) \<or>
         (\<exists>obj. derivative_float rnd (h ! self) = Inr obj \<and> res = Inr (length h)
                \<and> h' = h @ [obj])"
  using assms by (auto simp: derivative_at_eq split: sum.splits)







lemma derivative_1_2_3:
  "derivative_float binary64 \<lparr>left = Finite 1, center = Finite 2, right = Finite 3,
          left_spread = Finite 1, right_spread = Finite 1\<rparr>
   = Inr \<lparr>left = Finite 2, center = Finite 4, right = Finite 6,
          left_spread = Finite 2, right_spread = Finite 2\<rparr>"
  by (simp add: derivative_float_def init_float_def Let_def binary64_small)


lemma derivative_at_1_2_3:
  "derivative_at binary64 [\<lparr>left = Finite 1, center = Finite 2, right = Finite 3,
          left_spread = Finite 1, right_spread = Finite 1\<rparr>] 0
   = (Inr 1, [\<lparr>left = Finite 1, center = Finite 2, right = Finite 3,
                left_spread = Finite 1, right_spread = Finite 1\<rparr>,
              \<lparr>left = Finite 2, center = Finite 4, right = Finite 6,
                left_spread = Finite 2, right_spread = Finite 2\<rparr>])"
  by (simp add: derivative_at_eq derivative_1_2_3)



lemma init_rounding_example:
  "init_float binary64 (Finite 1) (Finite 9007199254740994) (Finite 9007199254740996)
   = Inr \<lparr>left = Finite 1, center = Finite 9007199254740994,
          right = Finite 9007199254740996,
          left_spread = Finite 9007199254740992, right_spread = Finite 2\<rparr>"
  by (simp add: init_float_def binary64_tie_2_53 binary64_small)

lemma derivative_rounding_example:
  "derivative_float binary64
     \<lparr>left = Finite 1, center = Finite 9007199254740994,
      right = Finite 9007199254740996,
      left_spread = Finite 9007199254740992, right_spread = Finite 2\<rparr>
   = Inr \<lparr>left = Finite 4, center = Finite 18014398509481988,
          right = Finite 18014398509481992,
          left_spread = Finite 18014398509481984, right_spread = Finite 4\<rparr>"
  by (simp add: derivative_float_def init_float_def Let_def binary64_small binary64_2_54
      binary64_2_54_4 binary64_2_54_8)

lemma derivative_rounding_example_2:
  "derivative_float binary64
     \<lparr>left = Finite 4, center = Finite 18014398509481988,
          right = Finite 18014398509481992,
          left_spread = Finite 18014398509481984, right_spread = Finite 4\<rparr>
   = Inr \<lparr>left = Finite 8, center = Finite 36028797018963976,
          right = Finite 36028797018963984,
          left_spread = Finite 36028797018963968, right_spread = Finite 8\<rparr>"
  by (simp add: derivative_float_def init_float_def Let_def binary64_small binary64_2_55
      binary64_2_55_8 binary64_2_55_16)

lemma init_overflow_example:
  "init_float binary64 (Finite (2 ^ 1023)) (Finite (5 * 2 ^ 1021)) (Finite (3 * 2 ^ 1022))
   = Inr \<lparr>left = Finite (2 ^ 1023), center = Finite (5 * 2 ^ 1021),
          right = Finite (3 * 2 ^ 1022),
          left_spread = Finite (2 ^ 1021), right_spread = Finite (2 ^ 1021)\<rparr>"
  by (simp add: init_float_def binary64_2_1021[simplified])

lemma derivative_overflow_example:
  "derivative_float binary64
     \<lparr>left = Finite (2 ^ 1023), center = Finite (5 * 2 ^ 1021),
      right = Finite (3 * 2 ^ 1022),
      left_spread = Finite (2 ^ 1021), right_spread = Finite (2 ^ 1021)\<rparr>
   = Inl (ValueError invalid_triplet_msg)"
  by (simp add: derivative_float_def init_float_def Let_def binary64_2_1022[simplified]
      binary64_5_2_1022[simplified])

section \<open>Properties\<close>

text \<open>
  C1, as stated, at the floats \<open>(1, 9007199254740994, 9007199254740996)\<close>, that is
  \<open>(1, 2 ^ 53 + 2, 2 ^ 53 + 4)\<close>: the stored left spread is the rounded difference
  \<open>2 ^ 53\<close>, and the derivative has left bound \<open>4\<close>, not \<open>2 * 1\<close>.
\<close>

theorem doubling_counterexample:
  "init_float binary64 (Finite 1) (Finite 9007199254740994) (Finite 9007199254740996)
     = Inr \<lparr>left = Finite 1, center = Finite 9007199254740994,
            right = Finite 9007199254740996,
            left_spread = Finite 9007199254740992, right_spread = Finite 2\<rparr>
   \<and> derivative_float binary64
       \<lparr>left = Finite 1, center = Finite 9007199254740994,
        right = Finite 9007199254740996,
        left_spread = Finite 9007199254740992, right_spread = Finite 2\<rparr>
     = Inr \<lparr>left = Finite 4, center = Finite 18014398509481988,
            right = Finite 18014398509481992,
            left_spread = Finite 18014398509481984, right_spread = Finite 4\<rparr>
   \<and> Finite 4 \<noteq> Finite (2 * 1)"
  by (simp add: init_rounding_example derivative_rounding_example)

text \<open>
  C1, amended. For a number built from finite floats \<open>a < b < c\<close>, \<open>derivative\<close> returns
  a new number with center \<open>2 * b\<close>, left spread \<open>2 * (b - a)\<close>, right spread
  \<open>2 * (c - b)\<close> and triplet \<open>(2 * a, 2 * b, 2 * c)\<close>, whenever the differences
  \<open>b - a\<close>, \<open>c - b\<close> and the doubles \<open>2 * a\<close>, \<open>2 * b\<close>, \<open>2 * c\<close>, \<open>2 * (b - a)\<close>,
  \<open>2 * (c - b)\<close> are floats themselves (no rounding and no overflow).
\<close>

theorem derivative_doubles_triplet:
  assumes "a < b" and "b < c"
    and "rnd (b - a) = Finite (b - a)" and "rnd (c - b) = Finite (c - b)"
    and "rnd (2 * a) = Finite (2 * a)" and "rnd (2 * b) = Finite (2 * b)"
    and "rnd (2 * c) = Finite (2 * c)"
    and "rnd (2 * (b - a)) = Finite (2 * (b - a))"
    and "rnd (2 * (c - b)) = Finite (2 * (c - b))"
  shows "\<exists>t. init_float rnd (Finite a) (Finite b) (Finite c) = Inr t \<and>
           derivative_float rnd t
             = Inr \<lparr>left = Finite (2 * a), center = Finite (2 * b), right = Finite (2 * c),
                    left_spread = Finite (2 * (b - a)),
                    right_spread = Finite (2 * (c - b))\<rparr>"
proof -
  have "init_float rnd (Finite a) (Finite b) (Finite c)
        = Inr \<lparr>left = Finite a, center = Finite b, right = Finite c,
               left_spread = Finite (b - a), right_spread = Finite (c - b)\<rparr>"
    using init_float_finite[OF assms(1,2), of rnd] by (simp only: assms(3,4))
  with derivative_float_exact[OF assms(1,2,5,6,7,8,9)] show ?thesis by blast
qed

theorem derivative_doubles_triplet_witness:
  "(0::real) < 5 \<and> (5::real) < 10 \<and>
   (\<exists>t. init_float binary64 (Finite 0) (Finite 5) (Finite 10) = Inr t \<and>
        derivative_float binary64 t
          = Inr \<lparr>left = Finite 0, center = Finite 10, right = Finite 20,
                 left_spread = Finite 10, right_spread = Finite 10\<rparr>)"
proof -
  have z: "binary64 0 = Finite 0" by (simp add: binary64_def)
  have "\<exists>t. init_float binary64 (Finite 0) (Finite 5) (Finite 10) = Inr t \<and>
        derivative_float binary64 t
          = Inr \<lparr>left = Finite (2 * 0), center = Finite (2 * 5), right = Finite (2 * 10),
                 left_spread = Finite (2 * (5 - 0)), right_spread = Finite (2 * (10 - 5))\<rparr>"
    by (rule derivative_doubles_triplet) (simp_all add: binary64_small z)
  then show ?thesis by simp
qed

text \<open>
  C2. Construction from three reals raises if and only if \<open>left < center < right\<close>
  fails (equalities included); the only error is \<^verbatim>\<open>ValueError\<close> with the message
  "Invalid fuzzy number triplet. Must satisfy: left < center < right.".
\<close>

theorem init_raises_iff:
  "((\<exists>e. init l c r = Inl e) = (\<not> (l < c \<and> c < r)))
   \<and> (\<forall>e. init l c r = Inl e \<longrightarrow> e = ValueError invalid_triplet_msg)
   \<and> ((\<exists>t. init l c r = Inr t) = (l < c \<and> c < r))
   \<and> invalid_triplet_msg
       = ''Invalid fuzzy number triplet. Must satisfy: left < center < right.''"
proof -
  have "(\<exists>e. init l c r = Inl e) = (\<not> (l < c \<and> c < r))"
    by (simp add: init_Inl_iff)
  moreover have "\<forall>e. init l c r = Inl e \<longrightarrow> e = ValueError invalid_triplet_msg"
    by (simp add: init_Inl_iff)
  moreover have "(\<exists>t. init l c r = Inr t) = (l < c \<and> c < r)"
    by (simp add: init_Inr_iff)
  moreover have "invalid_triplet_msg
       = ''Invalid fuzzy number triplet. Must satisfy: left < center < right.''"
    by (rule invalid_triplet_msg_def)
  ultimately show ?thesis by blast
qed

theorem init_raises_iff_witness:
  "init 2 2 3 = Inl (ValueError invalid_triplet_msg)
   \<and> init 1 2 2 = Inl (ValueError invalid_triplet_msg)
   \<and> init 3 2 1 = Inl (ValueError invalid_triplet_msg)
   \<and> (\<exists>t. init 1 2 3 = Inr t)"
proof -
  have "\<exists>e. init 2 2 3 = Inl e" using init_raises_iff[of 2 2 3] by simp
  then have a: "init 2 2 3 = Inl (ValueError invalid_triplet_msg)"
    using init_raises_iff[of 2 2 3] by blast
  have "\<exists>e. init 1 2 2 = Inl e" using init_raises_iff[of 1 2 2] by simp
  then have b: "init 1 2 2 = Inl (ValueError invalid_triplet_msg)"
    using init_raises_iff[of 1 2 2] by blast
  have "\<exists>e. init 3 2 1 = Inl e" using init_raises_iff[of 3 2 1] by simp
  then have c: "init 3 2 1 = Inl (ValueError invalid_triplet_msg)"
    using init_raises_iff[of 3 2 1] by blast
  have d: "\<exists>t. init 1 2 3 = Inr t" using init_raises_iff[of 1 2 3] by simp
  from a b c d show ?thesis by blast
qed

text \<open>
  C3, as stated, at the floats \<open>(1, 9007199254740994, 9007199254740996)\<close>: construction
  succeeds and stores the left spread \<open>9007199254740992\<close>, the rounded difference, not
  \<open>center - left = 9007199254740993\<close>.
\<close>

theorem spread_counterexample:
  "init_float binary64 (Finite 1) (Finite 9007199254740994) (Finite 9007199254740996)
     = Inr \<lparr>left = Finite 1, center = Finite 9007199254740994,
            right = Finite 9007199254740996,
            left_spread = Finite 9007199254740992, right_spread = Finite 2\<rparr>
   \<and> Finite 9007199254740992 \<noteq> Finite (9007199254740994 - 1)"
  by (simp add: init_rounding_example)

text \<open>
  C3, amended. For finite floats \<open>a < b < c\<close> construction succeeds and the instance
  stores \<open>left = a\<close>, \<open>center = b\<close>, \<open>right = c\<close>, and as spreads the float
  differences: \<open>b - a\<close> and \<open>c - b\<close> rounded. Nothing else happens: the store gains
  this one object and keeps the others.
\<close>

theorem init_stores:
  assumes "a < b" and "b < c"
  shows "init_float rnd (Finite a) (Finite b) (Finite c)
           = Inr \<lparr>left = Finite a, center = Finite b, right = Finite c,
                  left_spread = rnd (b - a), right_spread = rnd (c - b)\<rparr>
       \<and> new_FuzzyTriangle rnd h (Finite a) (Finite b) (Finite c)
           = (Inr (length h),
              h @ [\<lparr>left = Finite a, center = Finite b, right = Finite c,
                     left_spread = rnd (b - a), right_spread = rnd (c - b)\<rparr>])"
  by (simp add: new_FuzzyTriangle_def init_float_finite[OF assms])

theorem init_stores_witness:
  "(-1::real) < 0 \<and> (0::real) < 1 \<and>
   init_float binary64 (Finite (-1)) (Finite 0) (Finite 1)
     = Inr \<lparr>left = Finite (-1), center = Finite 0, right = Finite 1,
            left_spread = Finite 1, right_spread = Finite 1\<rparr>
   \<and> new_FuzzyTriangle binary64 [] (Finite (-1)) (Finite 0) (Finite 1)
       = (Inr 0, [\<lparr>left = Finite (-1), center = Finite 0, right = Finite 1,
                    left_spread = Finite 1, right_spread = Finite 1\<rparr>])"
  using init_stores[of "-1" 0 1 binary64 "[]"] by (simp add: binary64_small)







text \<open>
  C6, as stated, at the instance built from \<open>(2 ^ 1023, 5 * 2 ^ 1021, 3 * 2 ^ 1022)\<close>:
  \<open>derivative\<close> raises on it and returns no instance.
\<close>

theorem derivative_raises_counterexample:
  "new_FuzzyTriangle binary64 []
       (Finite (2 ^ 1023)) (Finite (5 * 2 ^ 1021)) (Finite (3 * 2 ^ 1022))
     = (Inr 0, [\<lparr>left = Finite (2 ^ 1023), center = Finite (5 * 2 ^ 1021),
                  right = Finite (3 * 2 ^ 1022),
                  left_spread = Finite (2 ^ 1021), right_spread = Finite (2 ^ 1021)\<rparr>])
   \<and> derivative_at binary64
       [\<lparr>left = Finite (2 ^ 1023), center = Finite (5 * 2 ^ 1021),
         right = Finite (3 * 2 ^ 1022),
         left_spread = Finite (2 ^ 1021), right_spread = Finite (2 ^ 1021)\<rparr>] 0
     = (Inl (ValueError invalid_triplet_msg),
        [\<lparr>left = Finite (2 ^ 1023), center = Finite (5 * 2 ^ 1021),
          right = Finite (3 * 2 ^ 1022),
          left_spread = Finite (2 ^ 1021), right_spread = Finite (2 ^ 1021)\<rparr>])"
proof (rule conjI)
  show "new_FuzzyTriangle binary64 []
       (Finite (2 ^ 1023)) (Finite (5 * 2 ^ 1021)) (Finite (3 * 2 ^ 1022))
     = (Inr 0, [\<lparr>left = Finite (2 ^ 1023), center = Finite (5 * 2 ^ 1021),
                  right = Finite (3 * 2 ^ 1022),
                  left_spread = Finite (2 ^ 1021), right_spread = Finite (2 ^ 1021)\<rparr>])"
    unfolding new_FuzzyTriangle_def by (simp only: init_overflow_example) simp
  have "[\<lparr>left = Finite (2 ^ 1023), center = Finite (5 * 2 ^ 1021),
         right = Finite (3 * 2 ^ 1022),
         left_spread = Finite (2 ^ 1021), right_spread = Finite (2 ^ 1021)\<rparr>] ! 0
       = \<lparr>left = Finite (2 ^ 1023), center = Finite (5 * 2 ^ 1021),
         right = Finite (3 * 2 ^ 1022),
         left_spread = Finite (2 ^ 1021), right_spread = Finite (2 ^ 1021)\<rparr>"
    by (rule nth_Cons_0)
  then show "derivative_at binary64
       [\<lparr>left = Finite (2 ^ 1023), center = Finite (5 * 2 ^ 1021),
         right = Finite (3 * 2 ^ 1022),
         left_spread = Finite (2 ^ 1021), right_spread = Finite (2 ^ 1021)\<rparr>] 0
     = (Inl (ValueError invalid_triplet_msg),
        [\<lparr>left = Finite (2 ^ 1023), center = Finite (5 * 2 ^ 1021),
          right = Finite (3 * 2 ^ 1022),
          left_spread = Finite (2 ^ 1021), right_spread = Finite (2 ^ 1021)\<rparr>])"
    unfolding derivative_at_eq by (simp only: derivative_overflow_example) simp
qed

text \<open>
  C6, amended. \<open>derivative\<close> does not change its receiver: after the call the object
  at \<open>self\<close> has the same five attributes and every other existing object is
  unchanged too; when the call returns, the reference it returns is a new one; when
  it raises, the store is as it was.
\<close>

theorem derivative_frame:
  assumes "self < length h" and "derivative_at rnd h self = (res, h')"
  shows "h' ! self = h ! self
       \<and> left (h' ! self) = left (h ! self)
       \<and> center (h' ! self) = center (h ! self)
       \<and> right (h' ! self) = right (h ! self)
       \<and> left_spread (h' ! self) = left_spread (h ! self)
       \<and> right_spread (h' ! self) = right_spread (h ! self)
       \<and> (\<forall>i < length h. h' ! i = h ! i)
       \<and> (\<forall>p. res = Inr p \<longrightarrow> p = length h \<and> p \<noteq> self \<and> length h' = Suc (length h))
       \<and> (\<forall>e. res = Inl e \<longrightarrow> h' = h)"
proof -
  from derivative_at_cases[OF assms(2)]
  consider (raised) e where "res = Inl e" "h' = h"
    | (returned) obj where "derivative_float rnd (h ! self) = Inr obj" "res = Inr (length h)"
        "h' = h @ [obj]"
    by blast
  then have frame: "\<forall>i < length h. h' ! i = h ! i"
    by cases (simp_all add: nth_append)
  then have self: "h' ! self = h ! self" using assms(1) by simp
  have fresh: "\<forall>p. res = Inr p \<longrightarrow> p = length h \<and> p \<noteq> self \<and> length h' = Suc (length h)"
    using derivative_at_cases[OF assms(2)] assms(1) by auto
  have raised: "\<forall>e. res = Inl e \<longrightarrow> h' = h"
    using derivative_at_cases[OF assms(2)] by auto
  from frame self fresh raised show ?thesis by simp
qed

theorem derivative_frame_witness:
  "(0::nat) < length [\<lparr>left = Finite 1, center = Finite 2, right = Finite 3,
                        left_spread = Finite 1, right_spread = Finite 1\<rparr>]
   \<and> derivative_at binary64 [\<lparr>left = Finite 1, center = Finite 2, right = Finite 3,
          left_spread = Finite 1, right_spread = Finite 1\<rparr>] 0
   = (Inr 1, [\<lparr>left = Finite 1, center = Finite 2, right = Finite 3,
                left_spread = Finite 1, right_spread = Finite 1\<rparr>,
              \<lparr>left = Finite 2, center = Finite 4, right = Finite 6,
                left_spread = Finite 2, right_spread = Finite 2\<rparr>])
   \<and> [\<lparr>left = Finite 1, center = Finite 2, right = Finite 3,
                left_spread = Finite 1, right_spread = Finite 1\<rparr>,
              \<lparr>left = Finite 2, center = Finite 4, right = Finite 6,
                left_spread = Finite 2, right_spread = Finite 2\<rparr>] ! 0
     = [\<lparr>left = Finite 1, center = Finite 2, right = Finite 3,
                left_spread = Finite 1, right_spread = Finite 1\<rparr>] ! 0
   \<and> (1::nat) \<noteq> 0"
proof -
  have l: "(0::nat) < length [\<lparr>left = Finite 1, center = Finite 2, right = Finite 3,
                        left_spread = Finite 1, right_spread = Finite 1\<rparr>]" by simp
  from derivative_frame[OF l derivative_at_1_2_3] l derivative_at_1_2_3
  show ?thesis by blast
qed

text \<open>
  C7. When the three lines parse and the base triplet fails \<open>left < center < right\<close>,
  the run prints, after the three prompts, exactly one line, \<^verbatim>\<open>Error:\<close> followed by
  the validation message; no figure is shown, neither \<^verbatim>\<open>fuzzy_point\<close> nor
  \<^verbatim>\<open>fuzzy_derivative\<close> is ever bound, and the script ends normally, the error
  having left the \<^verbatim>\<open>try\<close> body and been caught by the handler.
\<close>

theorem failed_validation_run:
  assumes "to_float E s1 = Inr a" and "to_float E s2 = Inr b" and "to_float E s3 = Inr c"
    and "\<not> (a < b \<and> b < c)"
  shows "main E (initial_world (s1 # s2 # s3 # rest)) =
     (None,
      \<lparr>stdin = rest,
       stdout = [Prompt ''Enter the left endpoint (a): '',
                 Prompt ''Enter the center value (b): '',
                 Prompt ''Enter the right endpoint (c): '',
                 Print (''Error: '' @ invalid_triplet_msg)],
       globals = [''a'' \<mapsto> Float a, ''b'' \<mapsto> Float b, ''c'' \<mapsto> Float c]\<rparr>)
   \<and> filter is_Print (stdout (snd (main E (initial_world (s1 # s2 # s3 # rest)))))
       = [Print (''Error: '' @ invalid_triplet_msg)]
   \<and> Show_figure \<notin> set (stdout (snd (main E (initial_world (s1 # s2 # s3 # rest)))))
   \<and> globals (snd (main E (initial_world (s1 # s2 # s3 # rest)))) ''fuzzy_point'' = None
   \<and> globals (snd (main E (initial_world (s1 # s2 # s3 # rest)))) ''fuzzy_derivative'' = None
   \<and> fst (try_body E (initial_world (s1 # s2 # s3 # rest)))
       = Some (ValueError invalid_triplet_msg)"
proof -
  note t = try_body_invalid[OF assms, of rest]
  have m: "main E (initial_world (s1 # s2 # s3 # rest)) =
     (None,
      \<lparr>stdin = rest,
       stdout = [Prompt ''Enter the left endpoint (a): '',
                 Prompt ''Enter the center value (b): '',
                 Prompt ''Enter the right endpoint (c): '',
                 Print (''Error: '' @ invalid_triplet_msg)],
       globals = [''a'' \<mapsto> Float a, ''b'' \<mapsto> Float b, ''c'' \<mapsto> Float c]\<rparr>)"
    by (simp add: main_def t py_print_def)
  have p: "filter is_Print (stdout (snd (main E (initial_world (s1 # s2 # s3 # rest)))))
       = [Print (''Error: '' @ invalid_triplet_msg)]"
    by (simp add: m is_Print_def)
  have f: "Show_figure \<notin> set (stdout (snd (main E (initial_world (s1 # s2 # s3 # rest)))))"
    by (simp add: m)
  have g1: "globals (snd (main E (initial_world (s1 # s2 # s3 # rest)))) ''fuzzy_point'' = None"
    by (simp add: m)
  have g2: "globals (snd (main E (initial_world (s1 # s2 # s3 # rest)))) ''fuzzy_derivative''
              = None"
    by (simp add: m)
  have e: "fst (try_body E (initial_world (s1 # s2 # s3 # rest)))
       = Some (ValueError invalid_triplet_msg)"
    by (simp add: t)
  from m p f g1 g2 e show ?thesis by blast
qed

theorem failed_validation_run_witness:
  "main example_env (initial_world [''2'', ''2'', ''3'']) =
     (None,
      \<lparr>stdin = [],
       stdout = [Prompt ''Enter the left endpoint (a): '',
                 Prompt ''Enter the center value (b): '',
                 Prompt ''Enter the right endpoint (c): '',
                 Print (''Error: '' @ invalid_triplet_msg)],
       globals = [''a'' \<mapsto> Float 2, ''b'' \<mapsto> Float 2, ''c'' \<mapsto> Float 3]\<rparr>)"
proof -
  have a: "to_float example_env ''2'' = Inr 2" by (simp add: example_env_def)
  have c: "to_float example_env ''3'' = Inr 3" by (simp add: example_env_def)
  have n: "\<not> ((2::real) < 2 \<and> (2::real) < 3)" by simp
  from failed_validation_run[OF a a c n, of "[]"] show ?thesis by blast
qed

text \<open>
  C8. For the input \<open>(1, 2, 3)\<close> construction yields \<open>left = 1\<close>, \<open>center = 2\<close>,
  \<open>right = 3\<close> (with spreads 1 and 1), and \<open>derivative\<close> of that instance yields
  \<open>left = 2\<close>, \<open>center = 4\<close>, \<open>right = 6\<close>.
\<close>

theorem scenario_1_2_3:
  "init 1 2 3 = Inr \<lparr>left = 1, center = 2, right = 3, left_spread = 1, right_spread = 1\<rparr>
   \<and> derivative \<lparr>left = 1, center = 2, right = 3, left_spread = 1, right_spread = 1\<rparr>
       = Inr \<lparr>left = 2, center = 4, right = 6, left_spread = 2, right_spread = 2\<rparr>"
  by (simp add: init_def derivative_def)

text \<open>
  C9, as stated, at the floats \<open>(1, 9007199254740994, 9007199254740996)\<close>: two
  applications of \<open>derivative\<close> give the left bound \<open>8\<close>, not \<open>4 * 1\<close>.
\<close>

theorem twofold_counterexample:
  "init_float binary64 (Finite 1) (Finite 9007199254740994) (Finite 9007199254740996)
     = Inr \<lparr>left = Finite 1, center = Finite 9007199254740994,
            right = Finite 9007199254740996,
            left_spread = Finite 9007199254740992, right_spread = Finite 2\<rparr>
   \<and> derivative_iter binary64 2
       \<lparr>left = Finite 1, center = Finite 9007199254740994,
        right = Finite 9007199254740996,
        left_spread = Finite 9007199254740992, right_spread = Finite 2\<rparr>
     = Inr \<lparr>left = Finite 8, center = Finite 36028797018963976,
            right = Finite 36028797018963984,
            left_spread = Finite 36028797018963968, right_spread = Finite 8\<rparr>
   \<and> Finite 8 \<noteq> Finite (4 * 1)"
  by (simp add: init_rounding_example numeral_2_eq_2 derivative_rounding_example
      derivative_rounding_example_2)

text \<open>
  C9, amended. On a number built from finite floats \<open>a < b < c\<close>, \<open>n\<close> applications
  of \<open>derivative\<close> give the triplet \<open>(2 ^ n * a, 2 ^ n * b, 2 ^ n * c)\<close> with spreads
  \<open>2 ^ n * (b - a)\<close> and \<open>2 ^ n * (c - b)\<close>, whenever \<open>2 ^ k * x\<close> is a float itself
  for every \<open>k \<le> n\<close> and every \<open>x\<close> among \<open>a\<close>, \<open>b\<close>, \<open>c\<close>, \<open>b - a\<close>, \<open>c - b\<close>
  (no rounding and no overflow on the way); two applications then give
  \<open>(4 * a, 4 * b, 4 * c)\<close>.
\<close>

theorem derivative_iter_scales:
  assumes "a < b" and "b < c"
    and "\<And>k. k \<le> n \<Longrightarrow> rnd (2 ^ k * a) = Finite (2 ^ k * a)"
    and "\<And>k. k \<le> n \<Longrightarrow> rnd (2 ^ k * b) = Finite (2 ^ k * b)"
    and "\<And>k. k \<le> n \<Longrightarrow> rnd (2 ^ k * c) = Finite (2 ^ k * c)"
    and "\<And>k. k \<le> n \<Longrightarrow> rnd (2 ^ k * (b - a)) = Finite (2 ^ k * (b - a))"
    and "\<And>k. k \<le> n \<Longrightarrow> rnd (2 ^ k * (c - b)) = Finite (2 ^ k * (c - b))"
  shows "\<exists>t. init_float rnd (Finite a) (Finite b) (Finite c) = Inr t \<and>
           derivative_iter rnd n t
             = Inr \<lparr>left = Finite (2 ^ n * a), center = Finite (2 ^ n * b),
                    right = Finite (2 ^ n * c), left_spread = Finite (2 ^ n * (b - a)),
                    right_spread = Finite (2 ^ n * (c - b))\<rparr>"
proof -
  have d: "rnd (b - a) = Finite (b - a)" "rnd (c - b) = Finite (c - b)"
    using assms(6)[of 0] assms(7)[of 0] by simp_all
  have "init_float rnd (Finite a) (Finite b) (Finite c)
        = Inr \<lparr>left = Finite a, center = Finite b, right = Finite c,
               left_spread = Finite (b - a), right_spread = Finite (c - b)\<rparr>"
    using init_float_finite[OF assms(1,2), of rnd] by (simp only: d)
  moreover have "derivative_iter rnd n
           \<lparr>left = Finite a, center = Finite b, right = Finite c,
            left_spread = Finite (b - a), right_spread = Finite (c - b)\<rparr>
         = Inr \<lparr>left = Finite (2 ^ n * a), center = Finite (2 ^ n * b),
                right = Finite (2 ^ n * c), left_spread = Finite (2 ^ n * (b - a)),
                right_spread = Finite (2 ^ n * (c - b))\<rparr>"
    by (rule derivative_iter_exact[OF assms(1,2)]) (rule assms(3-7), assumption)+
  ultimately show ?thesis by blast
qed

theorem derivative_iter_scales_witness:
  "(1::real) < 2 \<and> (2::real) < 3 \<and>
   (\<exists>t. init_float binary64 (Finite 1) (Finite 2) (Finite 3) = Inr t \<and>
        derivative_iter binary64 2 t
          = Inr \<lparr>left = Finite 4, center = Finite 8, right = Finite 12,
                 left_spread = Finite 4, right_spread = Finite 4\<rparr>)"
proof -
  have k: "k = 0 \<or> k = 1 \<or> k = 2" if "k \<le> 2" for k :: nat
    using that by auto
  have "\<exists>t. init_float binary64 (Finite 1) (Finite 2) (Finite 3) = Inr t \<and>
        derivative_iter binary64 2 t
          = Inr \<lparr>left = Finite (2 ^ 2 * 1), center = Finite (2 ^ 2 * 2),
                 right = Finite (2 ^ 2 * 3), left_spread = Finite (2 ^ 2 * (2 - 1)),
                 right_spread = Finite (2 ^ 2 * (3 - 2))\<rparr>"
  proof (rule derivative_iter_scales)
    fix j :: nat assume j: "j \<le> 2"
    show "binary64 (2 ^ j * 1) = Finite (2 ^ j * 1)"
      using k[OF j] by (auto simp: binary64_small)
    show "binary64 (2 ^ j * 2) = Finite (2 ^ j * 2)"
      using k[OF j] by (auto simp: binary64_small)
    show "binary64 (2 ^ j * 3) = Finite (2 ^ j * 3)"
      using k[OF j] by (auto simp: binary64_small)
    show "binary64 (2 ^ j * (2 - 1)) = Finite (2 ^ j * (2 - 1))"
      using k[OF j] by (auto simp: binary64_small)
    show "binary64 (2 ^ j * (3 - 2)) = Finite (2 ^ j * (3 - 2))"
      using k[OF j] by (auto simp: binary64_small)
  qed simp_all
  then show ?thesis by simp
qed

text \<open>
  C10, as stated, at the input \<open>(NaN, 2.0, 1.0)\<close>: one argument is NaN, yet the guard
  comparison \<^verbatim>\<open>center >= right\<close> is true and the constructor raises.
\<close>

theorem nan_guard_counterexample:
  "float_ge (Finite 2) (Finite 1)
   \<and> init_float Finite NaN (Finite 2) (Finite 1) = Inl (ValueError invalid_triplet_msg)"
  by (simp add: init_float_def)

text \<open>
  C10, amended. There are inputs outside \<open>left < center < right\<close> on which
  construction succeeds: \<open>(NaN, 1.0, 2.0)\<close> yields an instance whose left bound is
  NaN. With a NaN center construction always succeeds; with a NaN left bound it
  succeeds exactly when \<^verbatim>\<open>center >= right\<close> is false, and with a NaN right bound
  exactly when \<^verbatim>\<open>left >= center\<close> is false. Every instance built from a triplet
  that contains NaN violates the ordering.
\<close>

theorem nan_construction:
  "init_float rnd NaN (Finite 1) (Finite 2)
     = Inr \<lparr>left = NaN, center = Finite 1, right = Finite 2,
            left_spread = NaN, right_spread = rnd 1\<rparr>
   \<and> \<not> float_lt NaN (Finite 1)
   \<and> (\<exists>t. init_float rnd l NaN r = Inr t)
   \<and> ((\<exists>t. init_float rnd NaN c r = Inr t) = (\<not> float_ge c r))
   \<and> ((\<exists>t. init_float rnd l c NaN = Inr t) = (\<not> float_ge l c))
   \<and> ((l = NaN \<or> c = NaN \<or> r = NaN) \<longrightarrow>
        (\<forall>t. init_float rnd l c r = Inr t \<longrightarrow>
             \<not> (float_lt (left t) (center t) \<and> float_lt (center t) (right t))))"
proof -
  have 1: "init_float rnd NaN (Finite 1) (Finite 2)
     = Inr \<lparr>left = NaN, center = Finite 1, right = Finite 2,
            left_spread = NaN, right_spread = rnd 1\<rparr>"
    by (simp add: init_float_def)
  have 2: "\<not> float_lt NaN (Finite 1)" by simp
  have 3: "\<exists>t. init_float rnd l NaN r = Inr t"
    by (simp add: init_float_Inr_iff)
  have 4: "(\<exists>t. init_float rnd NaN c r = Inr t) = (\<not> float_ge c r)"
    by (simp add: init_float_Inr_iff)
  have 5: "(\<exists>t. init_float rnd l c NaN = Inr t) = (\<not> float_ge l c)"
    by (simp add: init_float_Inr_iff)
  have 6: "(l = NaN \<or> c = NaN \<or> r = NaN) \<longrightarrow>
        (\<forall>t. init_float rnd l c r = Inr t \<longrightarrow>
             \<not> (float_lt (left t) (center t) \<and> float_lt (center t) (right t)))"
    by (auto simp: init_float_Inr_iff)
  from 1 2 3 4 5 6 show ?thesis by blast
qed

theorem nan_construction_witness:
  "init_float Finite NaN (Finite 1) (Finite 2)
     = Inr \<lparr>left = NaN, center = Finite 1, right = Finite 2,
            left_spread = NaN, right_spread = Finite 1\<rparr>
   \<and> \<not> (float_lt NaN (Finite 1) \<and> float_lt (Finite 1) (Finite 2))
   \<and> (\<exists>t. init_float Finite NaN (Finite 1) (Finite 2) = Inr t)"
  using nan_construction[of Finite NaN "Finite 1" "Finite 2"] by simp

end
